theory Spec2Isabelle
  imports Complex_Main
begin

section \<open>Numbers and arrays of the dashboard\<close>

text \<open>
  The dashboard computes with JavaScript numbers. The observations arrive as JSON, so every
  number that enters is finite; it is modelled as a real, and rounding is not modelled. The
  results that JavaScript can produce besides a finite number are kept as values of their
  own: \<open>Math.max()\<close> of no arguments is \<open>-Infinity\<close>, \<open>Math.min()\<close> of no arguments is
  \<open>Infinity\<close>, and a division by zero is \<open>NaN\<close> or an infinity.
\<close>

datatype number = NaN | NegInfinity | PosInfinity | Finite real

text \<open>The operator \<open>/\<close> on two finite operands (signed zeros are not told apart).\<close>

definition js_div :: "real \<Rightarrow> real \<Rightarrow> number" where
  "js_div a b =
     (if b \<noteq> 0 then Finite (a / b)
      else if a = 0 then NaN
      else if 0 < a then PosInfinity
      else NegInfinity)"

text \<open>\<open>Math.max(...xs)\<close> and \<open>Math.min(...xs)\<close> over a spread array of finite numbers.\<close>

fun Math_max :: "real list \<Rightarrow> number" where
  "Math_max [] = NegInfinity"
| "Math_max (x # xs) = (case Math_max xs of Finite y \<Rightarrow> Finite (max x y) | _ \<Rightarrow> Finite x)"

fun Math_min :: "real list \<Rightarrow> number" where
  "Math_min [] = PosInfinity"
| "Math_min (x # xs) = (case Math_min xs of Finite y \<Rightarrow> Finite (min x y) | _ \<Rightarrow> Finite x)"

text \<open>
  \<open>xs.slice(start)\<close>: a negative start counts from the end and is clamped at the first
  element, a start beyond the end gives the empty array.
\<close>

definition slice :: "'a list \<Rightarrow> int \<Rightarrow> 'a list" where
  "slice xs start =
     (let len = int (length xs);
          k = (if start < 0 then max (len + start) 0 else min start len)
      in drop (nat k) xs)"

text \<open>\<open>xs.reduce((a, b) => a + b, 0)\<close>: a left fold from 0.\<close>

definition reduce_sum :: "real list \<Rightarrow> real" where
  "reduce_sum xs = foldl (\<lambda>a b. a + b) 0 xs"

section \<open>Data model\<close>

record DailyData =
  date :: string
  high :: real
  low :: real
  volatility :: real

record Metrics =
  current :: number
  avg7d :: number
  avg30d :: number
  max7d :: number
  max30d :: number
  avg100d :: number
  min7d :: number
  min30d :: number

text \<open>The value the \<open>metrics\<close> state starts with.\<close>

definition initial_metrics :: Metrics where
  "initial_metrics =
     \<lparr>current = Finite 0, avg7d = Finite 0, avg30d = Finite 0, max7d = Finite 0,
      max30d = Finite 0, avg100d = Finite 0, min7d = Finite 0, min30d = Finite 0\<rparr>"

section \<open>The metrics aggregator\<close>

datatype js_error = TypeError

text \<open>
  \<open>calculateMetrics\<close> receives whatever \<open>result.data\<close> holds: an array, or \<open>undefined\<close>
  (\<open>None\<close>) when the body has no \<open>data\<close> field, and then reading \<open>.length\<close> throws. Its
  only effect is \<open>setMetrics\<close>, so the model takes the current snapshot and returns the
  snapshot after the call. The index \<open>volatilities.length - 1\<close> is read behind the guard
  on the length, where it is in range.
\<close>

definition calculateMetrics :: "DailyData list option \<Rightarrow> Metrics \<Rightarrow> js_error + Metrics" where
  "calculateMetrics arg snapshot =
     (case arg of
        None \<Rightarrow> Inl TypeError
      | Some stockData \<Rightarrow>
          if length stockData = 0 then Inr snapshot
          else
            let volatilities = map volatility stockData;
                last7 = slice volatilities (- 7);
                last30 = slice volatilities (- 30);
                last100 = slice volatilities (- 100)
            in Inr \<lparr>current = Finite (volatilities ! (length volatilities - 1)),
                    avg7d = js_div (reduce_sum last7) 7,
                    avg30d = js_div (reduce_sum last30) 30,
                    max7d = Math_max last7,
                    max30d = Math_max last30,
                    avg100d = js_div (reduce_sum last100) (real (length last100)),
                    min7d = Math_min last7,
                    min30d = Math_min last30\<rparr>)"

section \<open>Local time\<close>

text \<open>
  A \<open>Date\<close> is an instant in milliseconds, counted on the local wall clock: the zone
  offset is fixed and there is no daylight-saving shift, so every calendar day has
  \<open>msPerDay\<close> milliseconds and begins at a multiple of it.
\<close>

type_synonym Date = int

definition msPerHour :: int where
  "msPerHour = 3600000"

definition msPerDay :: int where
  "msPerDay = 24 * msPerHour"

definition getHours :: "Date \<Rightarrow> int" where
  "getHours t = (t mod msPerDay) div msPerHour"

text \<open>\<open>d.setHours(h, 0, 0, 0)\<close>: the same calendar day at \<open>h\<close> o'clock sharp.\<close>

definition setHours :: "Date \<Rightarrow> int \<Rightarrow> Date" where
  "setHours t h = t - t mod msPerDay + h * msPerHour"

text \<open>\<open>d.setDate(d.getDate() + 1)\<close>: the same time of day on the following calendar day.\<close>

definition setDate_next :: "Date \<Rightarrow> Date" where
  "setDate_next t = t + msPerDay"

text \<open>
  The computation of \<open>next5am\<close>, written twice in the source (in \<open>fetchData\<close> and in the
  effect). It reads the clock twice: \<open>t1\<close> is the instant \<open>next5am\<close> is created from,
  \<open>t2\<close> the instant whose hour is tested.
\<close>

definition next5am :: "Date \<Rightarrow> Date \<Rightarrow> Date" where
  "next5am t1 t2 =
     (let d = setHours t1 5
      in if getHours t2 \<ge> 5 then setDate_next d else d)"

section \<open>The dashboard state and the refresh cycle\<close>

text \<open>
  The state of one dashboard: the \<open>useState\<close> cells, the pending \<open>setTimeout\<close> (its
  delay in milliseconds, \<open>None\<close> when no timeout is pending), and a counter of the calls
  of \<open>fetch('/api/volatility')\<close>, which the source does not hold and which only records
  how many requests were made. \<open>data\<close> is \<open>None\<close> when the cell holds \<open>undefined\<close>.
\<close>

record Dashboard =
  data :: "DailyData list option"
  lastUpdateTime :: Date
  nextUpdateTime :: Date
  metrics :: Metrics
  timer :: "int option"
  fetch_calls :: nat

definition initial_Dashboard :: "Date \<Rightarrow> Date \<Rightarrow> Dashboard" where
  "initial_Dashboard t0 t1 =
     \<lparr>data = Some [], lastUpdateTime = t0, nextUpdateTime = t1,
      metrics = initial_metrics, timer = None, fetch_calls = 0\<rparr>"

text \<open>
  What the two awaits of \<open>fetchData\<close> give: \<open>Rejected\<close> when \<open>fetch\<close> or
  \<open>response.json()\<close> throws (no network, a body that is not JSON), otherwise the
  \<open>data\<close> field of the parsed body, \<open>None\<close> when the body has none (the handler's
  \<open>{ error: 'Failed to fetch data' }\<close>).
\<close>

datatype fetch_result = Rejected | Resolved "DailyData list option"

text \<open>
  \<open>fetchData\<close>. The three instants are the three \<open>new Date()\<close> of its body, in order.
  An exception anywhere in the \<open>try\<close> block ends it; the \<open>catch\<close> only logs, so the
  state keeps what was set before the exception.
\<close>

definition fetchData :: "Dashboard \<Rightarrow> fetch_result \<Rightarrow> Date \<Rightarrow> Date \<Rightarrow> Date \<Rightarrow> Dashboard" where
  "fetchData st r t_last t_next t_hour =
     (let st0 = st\<lparr>fetch_calls := fetch_calls st + 1\<rparr>
      in case r of
           Rejected \<Rightarrow> st0
         | Resolved d \<Rightarrow>
             (let st1 = st0\<lparr>data := d\<rparr>
              in case calculateMetrics d (metrics st1) of
                   Inl e \<Rightarrow> st1
                 | Inr m \<Rightarrow>
                     st1\<lparr>metrics := m,
                         lastUpdateTime := t_last,
                         nextUpdateTime := next5am t_next t_hour\<rparr>))"

text \<open>
  The effect that runs when the dashboard is mounted: it calls \<open>fetchData\<close>, computes
  the delay until the next 05:00 from its own two readings of the clock and arms one
  timeout with it. The dependency \<open>fetchData\<close> is a stable callback, so the effect runs
  once.
\<close>

definition useEffect_mount ::
    "Dashboard \<Rightarrow> fetch_result \<Rightarrow> Date \<Rightarrow> Date \<Rightarrow> Date \<Rightarrow> Date \<Rightarrow> Date \<Rightarrow> Dashboard" where
  "useEffect_mount st r t_last t_next t_hour now t5 =
     (let st1 = fetchData st r t_last t_next t_hour;
          msUntil5am = next5am t5 now - now
      in st1\<lparr>timer := Some msUntil5am\<rparr>)"

text \<open>
  The pending timeout fires: it is gone, and its callback \<open>fetchData\<close> runs. Without a
  pending timeout nothing happens.
\<close>

definition timer_fires :: "Dashboard \<Rightarrow> fetch_result \<Rightarrow> Date \<Rightarrow> Date \<Rightarrow> Date \<Rightarrow> Dashboard" where
  "timer_fires st r t_last t_next t_hour =
     (case timer st of
        None \<Rightarrow> st
      | Some ms \<Rightarrow> fetchData (st\<lparr>timer := None\<rparr>) r t_last t_next t_hour)"

text \<open>The cleanup of the effect: \<open>clearTimeout(timer)\<close>.\<close>

definition useEffect_cleanup :: "Dashboard \<Rightarrow> Dashboard" where
  "useEffect_cleanup st = st\<lparr>timer := None\<rparr>"

section \<open>The API route\<close>

text \<open>
  The part of the upstream answer that the handler reads: \<open>chart.result[0].timestamp\<close> and
  the \<open>high\<close> and \<open>low\<close> arrays of \<open>chart.result[0].indicators.quote[0]\<close>.
\<close>

record YahooFinanceResponse =
  timestamp :: "int list"
  quote_high :: "real list"
  quote_low :: "real list"

text \<open>An array read \<open>xs[i]\<close>: \<open>undefined\<close> (\<open>None\<close>) out of range.\<close>

definition js_index :: "'a list \<Rightarrow> nat \<Rightarrow> 'a option" where
  "js_index xs i = (if i < length xs then Some (xs ! i) else None)"

text \<open>\<open>high - low\<close>, where either operand may be \<open>undefined\<close>: then the result is \<open>NaN\<close>.\<close>

definition js_minus :: "real option \<Rightarrow> real option \<Rightarrow> number" where
  "js_minus a b = (case (a, b) of (Some x, Some y) \<Rightarrow> Finite (x - y) | _ \<Rightarrow> NaN)"

text \<open>
  One element of the handler's \<open>data\<close>. The date is kept as the instant
  \<open>timestamp * 1000\<close>; its rendering by \<open>toISOString\<close> is not modelled.
\<close>

record ApiRow =
  row_date :: int
  row_volatility :: number
  row_high :: "real option"
  row_low :: "real option"

datatype api_response = Status200 "ApiRow list" | Status500 string

text \<open>
  The handler, from the answer of \<open>axios.get\<close> on: \<open>None\<close> stands for every exception of
  the \<open>try\<close> block (the request fails, the answer has no \<open>chart.result[0]\<close>).
\<close>

definition handler :: "YahooFinanceResponse option \<Rightarrow> api_response" where
  "handler upstream =
     (case upstream of
        None \<Rightarrow> Status500 ''Failed to fetch data''
      | Some resp \<Rightarrow>
          Status200
            (map (\<lambda>(ts, index).
                    let h = js_index (quote_high resp) index;
                        l = js_index (quote_low resp) index
                    in \<lparr>row_date = ts * 1000, row_volatility = js_minus h l,
                        row_high = h, row_low = l\<rparr>)
                 (zip (timestamp resp) [0 ..< length (timestamp resp)])))"

section \<open>Notions of the specification and sample inputs\<close>

text \<open>The trailing window of the specification: the last \<open>min N k\<close> elements of a series of length \<open>N\<close>.\<close>

definition trailing :: "nat \<Rightarrow> 'a list \<Rightarrow> 'a list" where
  "trailing k xs = drop (length xs - min (length xs) k) xs"

text \<open>The calendar day an instant lies in, and 05:00:00.000 of a calendar day.\<close>

definition day_of :: "Date \<Rightarrow> int" where
  "day_of t = t div msPerDay"

definition at0500 :: "int \<Rightarrow> Date" where
  "at0500 day = day * msPerDay + 5 * msPerHour"

text \<open>The series of the specification's concrete scenario, and a dashboard that holds it.\<close>

definition series3 :: "DailyData list" where
  "series3 =
     [\<lparr>date = ''day1'', high = 100, low = 90, volatility = 10\<rparr>,
      \<lparr>date = ''day2'', high = 110, low = 95, volatility = 15\<rparr>,
      \<lparr>date = ''day3'', high = 105, low = 100, volatility = 5\<rparr>]"

definition dashboard3 :: Dashboard where
  "dashboard3 = (initial_Dashboard 0 0)\<lparr>data := Some series3\<rparr>"

text \<open>
  An upstream answer with one trading day, and an observation whose \<open>volatility\<close> field
  is not the difference of its \<open>high\<close> and \<open>low\<close>.
\<close>

definition upstream1 :: YahooFinanceResponse where
  "upstream1 = \<lparr>timestamp = [1700000000], quote_high = [100], quote_low = [90]\<rparr>"

definition mismatched_row :: DailyData where
  "mismatched_row = \<lparr>date = ''day1'', high = 100, low = 90, volatility = 0\<rparr>"

section \<open>Auxiliary facts\<close>

lemma slice_neg_drop:
  "0 < k \<Longrightarrow> slice xs (- int k) = drop (length xs - k) xs"
  by (simp add: slice_def Let_def nat_diff_distrib' max_def)

lemma foldl_plus: "foldl (\<lambda>a b. a + b) (a::real) xs = a + sum_list xs"
  by (induction xs arbitrary: a) simp_all

lemma reduce_sum_sum_list: "reduce_sum xs = sum_list xs"
  by (simp add: reduce_sum_def foldl_plus)

lemma Math_max_Max: "xs \<noteq> [] \<Longrightarrow> Math_max xs = Finite (Max (set xs))"
proof (induction xs)
  case Nil
  then show ?case by simp
next
  case (Cons x xs)
  show ?case
  proof (cases "xs = []")
    case True
    then show ?thesis by simp
  next
    case False
    with Cons.IH show ?thesis by simp
  qed
qed

lemma Math_min_Min: "xs \<noteq> [] \<Longrightarrow> Math_min xs = Finite (Min (set xs))"
proof (induction xs)
  case Nil
  then show ?case by simp
next
  case (Cons x xs)
  show ?case
  proof (cases "xs = []")
    case True
    then show ?thesis by simp
  next
    case False
    with Cons.IH show ?thesis by simp
  qed
qed

lemma slice_trailing: "0 < k \<Longrightarrow> slice xs (- int k) = trailing k xs"
  by (simp add: slice_neg_drop trailing_def min_def)

lemma trailing_nonempty: "xs \<noteq> [] \<Longrightarrow> 0 < k \<Longrightarrow> trailing k xs \<noteq> []"
  by (cases xs) (auto simp: trailing_def min_def)

lemma length_trailing: "length (trailing k xs) = min (length xs) k"
  by (auto simp: trailing_def min_def)

lemma trailing_append: "k \<le> length ys \<Longrightarrow> trailing k (xs @ ys) = trailing k ys"
  by (simp add: trailing_def min_def)

lemma js_div_nonzero: "b \<noteq> 0 \<Longrightarrow> js_div a b = Finite (a / b)"
  by (simp add: js_div_def)

lemma calculateMetrics_nonempty:
  assumes "stockData \<noteq> []"
  shows "calculateMetrics (Some stockData) snapshot =
     Inr \<lparr>current = Finite (volatility (last stockData)),
          avg7d = Finite (sum_list (trailing 7 (map volatility stockData)) / 7),
          avg30d = Finite (sum_list (trailing 30 (map volatility stockData)) / 30),
          max7d = Finite (Max (set (trailing 7 (map volatility stockData)))),
          max30d = Finite (Max (set (trailing 30 (map volatility stockData)))),
          avg100d = Finite (sum_list (trailing 100 (map volatility stockData))
                      / real (min (length stockData) 100)),
          min7d = Finite (Min (set (trailing 7 (map volatility stockData)))),
          min30d = Finite (Min (set (trailing 30 (map volatility stockData))))\<rparr>"
proof -
  let ?vs = "map volatility stockData"
  have ne: "?vs \<noteq> []" using assms by simp
  have s7: "slice ?vs (- 7) = trailing 7 ?vs"
    using slice_trailing [of 7 ?vs] by simp
  have s30: "slice ?vs (- 30) = trailing 30 ?vs"
    using slice_trailing [of 30 ?vs] by simp
  have s100: "slice ?vs (- 100) = trailing 100 ?vs"
    using slice_trailing [of 100 ?vs] by simp
  have cur: "?vs ! (length ?vs - 1) = volatility (last stockData)"
    using assms ne by (metis last_conv_nth last_map)
  have len: "real (length (trailing 100 ?vs)) \<noteq> 0"
    using trailing_nonempty [OF ne, of 100] by simp
  have l100: "length (trailing 100 ?vs) = min (length stockData) 100"
    by (simp add: length_trailing)
  have d7: "js_div (sum_list (trailing 7 ?vs)) 7 = Finite (sum_list (trailing 7 ?vs) / 7)"
    by (simp add: js_div_nonzero)
  have d30: "js_div (sum_list (trailing 30 ?vs)) 30 = Finite (sum_list (trailing 30 ?vs) / 30)"
    by (simp add: js_div_nonzero)
  have d100: "js_div (sum_list (trailing 100 ?vs)) (real (length (trailing 100 ?vs)))
      = Finite (sum_list (trailing 100 ?vs) / real (min (length stockData) 100))"
    using js_div_nonzero [OF len] by (simp only: l100)
  have mx: "Math_max (trailing k ?vs) = Finite (Max (set (trailing k ?vs)))" if "0 < k" for k
    using that ne by (simp add: Math_max_Max trailing_nonempty)
  have mn: "Math_min (trailing k ?vs) = Finite (Min (set (trailing k ?vs)))" if "0 < k" for k
    using that ne by (simp add: Math_min_Min trailing_nonempty)
  have "calculateMetrics (Some stockData) snapshot =
      Inr \<lparr>current = Finite (?vs ! (length ?vs - 1)),
           avg7d = js_div (reduce_sum (slice ?vs (- 7))) 7,
           avg30d = js_div (reduce_sum (slice ?vs (- 30))) 30,
           max7d = Math_max (slice ?vs (- 7)),
           max30d = Math_max (slice ?vs (- 30)),
           avg100d = js_div (reduce_sum (slice ?vs (- 100))) (real (length (slice ?vs (- 100)))),
           min7d = Math_min (slice ?vs (- 7)),
           min30d = Math_min (slice ?vs (- 30))\<rparr>"
    using assms by (simp add: calculateMetrics_def Let_def)
  then show ?thesis
    by (simp only: s7 s30 s100 cur reduce_sum_sum_list d7 d30 d100 mx mn zero_less_numeral)
qed

lemma msPerHour_pos: "0 < msPerHour"
  by (simp add: msPerHour_def)

lemma msPerDay_pos: "0 < msPerDay"
  by (simp add: msPerDay_def msPerHour_def)

lemma day_bounds:
  fixes d t :: int
  assumes "0 < d"
  shows "(t div d) * d \<le> t \<and> t < (t div d + 1) * d"
proof -
  have eq: "(t div d) * d + t mod d = t" by (rule div_mult_mod_eq)
  have lo: "0 \<le> t mod d" and hi: "t mod d < d" using assms by simp_all
  have below: "(t div d) * d \<le> t" using eq lo by linarith
  have "(t div d + 1) * d = (t div d) * d + d" by (simp add: distrib_right)
  then have "t < (t div d + 1) * d" using eq hi by linarith
  with below show ?thesis by simp
qed

lemma le_div_iff_int:
  fixes h k x :: int
  assumes "0 < h"
  shows "(k \<le> x div h) = (k * h \<le> x)"
proof
  assume "k \<le> x div h"
  then have "k * h \<le> (x div h) * h"
    using assms by (simp add: mult_right_mono)
  also have "\<dots> \<le> x"
    using day_bounds [OF assms, of x] by simp
  finally show "k * h \<le> x" .
next
  assume "k * h \<le> x"
  then have "(k * h) div h \<le> x div h"
    using assms by (rule zdiv_mono1)
  then show "k \<le> x div h"
    using assms by simp
qed

lemma setHours_5: "setHours t 5 = at0500 (day_of t)"
proof -
  have "t - t mod msPerDay = (t div msPerDay) * msPerDay"
    by (rule minus_mod_eq_div_mult)
  then show ?thesis
    by (simp add: setHours_def at0500_def day_of_def)
qed

lemma getHours_ge_5: "(getHours t \<ge> 5) = (at0500 (day_of t) \<le> t)"
proof -
  have eq: "(t div msPerDay) * msPerDay + t mod msPerDay = t"
    by (rule div_mult_mod_eq)
  have "(5 \<le> (t mod msPerDay) div msPerHour) = (5 * msPerHour \<le> t mod msPerDay)"
    using msPerHour_pos by (rule le_div_iff_int)
  also have "\<dots> = ((t div msPerDay) * msPerDay + 5 * msPerHour \<le> t)"
    using eq by linarith
  finally show ?thesis
    by (simp add: getHours_def at0500_def day_of_def)
qed

lemma at0500_next: "setDate_next (at0500 k) = at0500 (k + 1)"
  by (simp add: setDate_next_def at0500_def distrib_right)

lemma next5am_same_instant:
  "next5am t t = (if at0500 (day_of t) \<le> t then at0500 (day_of t + 1) else at0500 (day_of t))"
  by (simp add: next5am_def Let_def setHours_5 getHours_ge_5 at0500_next)

lemma at0500_mono: "(at0500 j \<le> at0500 k) = (j \<le> k)"
  using msPerDay_pos by (simp add: at0500_def)

lemma at0500_day: "t < at0500 (day_of t + 1) \<and> at0500 (day_of t - 1) < t"
proof -
  have up: "t < (t div msPerDay + 1) * msPerDay" and lo: "(t div msPerDay) * msPerDay \<le> t"
    using day_bounds [OF msPerDay_pos, of t] by simp_all
  have after: "t < at0500 (day_of t + 1)"
    using up msPerHour_pos by (simp add: at0500_def day_of_def)
  have "(t div msPerDay - 1) * msPerDay = (t div msPerDay) * msPerDay - 24 * msPerHour"
    by (simp add: left_diff_distrib msPerDay_def)
  then have "at0500 (day_of t - 1) < t"
    using lo msPerHour_pos by (simp add: at0500_def day_of_def)
  with after show ?thesis by simp
qed

lemma fetchData_resolved_array:
  "\<exists>m. calculateMetrics (Some sd) (metrics st) = Inr m
     \<and> fetchData st (Resolved (Some sd)) t_last t_next t_hour =
         st\<lparr>fetch_calls := fetch_calls st + 1, data := Some sd, metrics := m,
            lastUpdateTime := t_last, nextUpdateTime := next5am t_next t_hour\<rparr>"
  by (cases "sd = []") (simp_all add: fetchData_def calculateMetrics_def Let_def)

lemma Min_le_Max_list: "xs \<noteq> [] \<Longrightarrow> Min (set xs) \<le> Max (set xs)"
  by (simp add: Min_le_iff)

lemma fetchData_data: "data (fetchData st (Resolved d) t_last t_next t_hour) = d"
  by (simp add: fetchData_def Let_def split: sum.splits)

lemma fetchData_timer: "timer (fetchData st r t_last t_next t_hour) = timer st"
  by (cases r) (simp_all add: fetchData_def Let_def split: sum.splits)

lemma fetchData_fetch_calls:
  "fetch_calls (fetchData st r t_last t_next t_hour) = fetch_calls st + 1"
  by (cases r) (simp_all add: fetchData_def Let_def split: sum.splits)

lemma map_zip_upt:
  "map (\<lambda>(x, i). f x i) (zip xs [0 ..< length xs]) = map (\<lambda>i. f (xs ! i) i) [0 ..< length xs]"
  by (rule nth_equalityI) simp_all

lemma handler_rows:
  "handler (Some resp) = Status200
     (map (\<lambda>i. \<lparr>row_date = timestamp resp ! i * 1000,
                row_volatility = js_minus (js_index (quote_high resp) i) (js_index (quote_low resp) i),
                row_high = js_index (quote_high resp) i,
                row_low = js_index (quote_low resp) i\<rparr>)
        [0 ..< length (timestamp resp)])"
  by (simp add: handler_def Let_def map_zip_upt)

section \<open>The aggregator on a non-empty series\<close>

text \<open>
  Claim C1. For every non-empty series the aggregator divides the sum of the trailing
  \<open>min N 7\<close> volatilities by the constant 7 for \<open>avg7d\<close> and the sum of the trailing
  \<open>min N 30\<close> volatilities by the constant 30 for \<open>avg30d\<close>, while \<open>avg100d\<close> is the sum
  of the trailing \<open>min N 100\<close> volatilities divided by the number of elements of that
  slice. For the series with volatilities 10, 15, 5 this gives \<open>avg7d = 30 / 7\<close> and
  \<open>avg100d = 30 / 3 = 10\<close> (the witness).
\<close>

theorem averages_divisors:
  assumes "stockData \<noteq> []"
  shows "\<exists>m. calculateMetrics (Some stockData) snapshot = Inr m
           \<and> avg7d m = Finite (sum_list (trailing 7 (map volatility stockData)) / 7)
           \<and> avg30d m = Finite (sum_list (trailing 30 (map volatility stockData)) / 30)
           \<and> avg100d m = Finite (sum_list (trailing 100 (map volatility stockData))
                            / real (length (trailing 100 (map volatility stockData))))
           \<and> length (trailing 7 (map volatility stockData)) = min (length stockData) 7
           \<and> length (trailing 30 (map volatility stockData)) = min (length stockData) 30
           \<and> length (trailing 100 (map volatility stockData)) = min (length stockData) 100"
  using calculateMetrics_nonempty [OF assms, of snapshot]
  by (simp add: length_trailing)

theorem averages_divisors_witness:
  "series3 \<noteq> []
   \<and> map volatility series3 = [10, 15, 5]
   \<and> (\<exists>m. calculateMetrics (Some series3) initial_metrics = Inr m
         \<and> avg7d m = Finite (30 / 7) \<and> avg30d m = Finite (30 / 30) \<and> avg100d m = Finite (30 / 3))"
  using averages_divisors [of series3 initial_metrics]
  by (simp add: series3_def trailing_def)

text \<open>
  Claim C6. For every non-empty series the field \<open>current\<close> of the snapshot is the
  volatility of the last element of the series.
\<close>

theorem current_is_last:
  assumes "stockData \<noteq> []"
  shows "\<exists>m. calculateMetrics (Some stockData) snapshot = Inr m
           \<and> current m = Finite (volatility (last stockData))"
  using calculateMetrics_nonempty [OF assms, of snapshot] by simp

theorem current_is_last_witness:
  "series3 \<noteq> []
   \<and> (\<exists>m. calculateMetrics (Some series3) initial_metrics = Inr m \<and> current m = Finite 5)"
  using current_is_last [of series3 initial_metrics]
  by (simp add: series3_def)

text \<open>
  Claim C7. For every series of length \<open>N \<ge> 1\<close> and each window of 7 and of 30 days, the
  maximum of the snapshot is at least its minimum, and both lie between the least and the
  greatest of the trailing \<open>min N W\<close> volatilities.
\<close>

theorem extremes_within_window:
  assumes "stockData \<noteq> []"
  shows "\<exists>m mx7 mn7 mx30 mn30.
           calculateMetrics (Some stockData) snapshot = Inr m
           \<and> max7d m = Finite mx7 \<and> min7d m = Finite mn7
           \<and> max30d m = Finite mx30 \<and> min30d m = Finite mn30
           \<and> mn7 \<le> mx7 \<and> mn30 \<le> mx30
           \<and> Min (set (trailing 7 (map volatility stockData))) \<le> mn7
           \<and> mx7 \<le> Max (set (trailing 7 (map volatility stockData)))
           \<and> Min (set (trailing 30 (map volatility stockData))) \<le> mn30
           \<and> mx30 \<le> Max (set (trailing 30 (map volatility stockData)))"
proof -
  let ?vs = "map volatility stockData"
  have ne: "?vs \<noteq> []" using assms by simp
  have "Min (set (trailing 7 ?vs)) \<le> Max (set (trailing 7 ?vs))"
    using trailing_nonempty [OF ne, of 7] by (simp add: Min_le_Max_list)
  moreover have "Min (set (trailing 30 ?vs)) \<le> Max (set (trailing 30 ?vs))"
    using trailing_nonempty [OF ne, of 30] by (simp add: Min_le_Max_list)
  ultimately show ?thesis
    using calculateMetrics_nonempty [OF assms, of snapshot] by simp
qed

theorem extremes_within_window_witness:
  "series3 \<noteq> []
   \<and> (\<exists>m mx7 mn7 mx30 mn30.
         calculateMetrics (Some series3) initial_metrics = Inr m
         \<and> max7d m = Finite mx7 \<and> min7d m = Finite mn7
         \<and> max30d m = Finite mx30 \<and> min30d m = Finite mn30
         \<and> mn7 \<le> mx7 \<and> mn30 \<le> mx30
         \<and> 5 \<le> mn7 \<and> mx7 \<le> 15 \<and> 5 \<le> mn30 \<and> mx30 \<le> 15)"
  using extremes_within_window [of series3 initial_metrics]
  by (simp add: series3_def trailing_def)

text \<open>
  Claim C9. The snapshot depends on the last 100 elements only: for a series \<open>S\<close> of at
  least 100 observations and any older observations \<open>P\<close> before it, aggregating
  \<open>P @ S\<close> gives the snapshot of \<open>S\<close>, all eight fields.
\<close>

theorem snapshot_last_100:
  assumes "100 \<le> length S"
  shows "calculateMetrics (Some (P @ S)) snapshot = calculateMetrics (Some S) snapshot"
proof -
  have ne: "S \<noteq> []" "P @ S \<noteq> []" using assms by auto
  have len: "min (length (P @ S)) 100 = min (length S) 100" using assms by simp
  have tr: "trailing k (map volatility (P @ S)) = trailing k (map volatility S)"
    if "k \<le> 100" for k
    using that assms by (simp add: trailing_append)
  show ?thesis
    by (simp only: calculateMetrics_nonempty [OF ne(1)] calculateMetrics_nonempty [OF ne(2)]
        tr len last_appendR [OF ne(1)])
qed

theorem snapshot_last_100_witness:
  "100 \<le> length (replicate 100 (hd series3))
   \<and> calculateMetrics (Some (series3 @ replicate 100 (hd series3))) initial_metrics
     = calculateMetrics (Some (replicate 100 (hd series3))) initial_metrics"
  using snapshot_last_100 [of "replicate 100 (hd series3)" series3 initial_metrics]
  by simp

section \<open>The aggregator on an empty series\<close>

text \<open>
  Claim C10. Invoked with an empty series the aggregator leaves the stored snapshot as it
  was, every field of it: the call returns the snapshot it was given, \<open>fetchData\<close> keeps
  the \<open>metrics\<close> of the state, and on a fresh dashboard they are still all zero.
\<close>

theorem empty_series_keeps_snapshot:
  "calculateMetrics (Some []) snapshot = Inr snapshot
   \<and> metrics (fetchData st (Resolved (Some [])) t_last t_next t_hour) = metrics st
   \<and> metrics (fetchData (initial_Dashboard t0 t1) (Resolved (Some [])) t_last t_next t_hour)
       = initial_metrics"
  by (simp add: calculateMetrics_def fetchData_def initial_Dashboard_def Let_def)

text \<open>
  Claim C8 says that the aggregator, invoked with an empty series, signals an
  \<open>EmptySeries\<close> condition instead of dividing by zero. It does not signal: the call
  returns normally (\<open>Inr\<close>), as it does after an aggregation.
\<close>

theorem empty_series_signals_nothing:
  "\<not> isl (calculateMetrics (Some []) initial_metrics)"
  by (simp add: calculateMetrics_def)

text \<open>
  Claim C8, amended. Invoked with an empty series the aggregator returns at once and
  normally, with the snapshot untouched and no division made; nothing is signalled, so
  the caller goes on as after an aggregation and \<open>fetchData\<close> sets \<open>lastUpdateTime\<close> and
  \<open>nextUpdateTime\<close>. The only condition the aggregator raises is the \<open>TypeError\<close> on
  \<open>undefined\<close>. Without the guard the empty series would give \<open>0 / 0\<close> for \<open>avg100d\<close>.
\<close>

theorem empty_series_returns_normally:
  "calculateMetrics (Some []) snapshot = Inr snapshot
   \<and> calculateMetrics None snapshot = Inl TypeError
   \<and> lastUpdateTime (fetchData st (Resolved (Some [])) t_last t_next t_hour) = t_last
   \<and> nextUpdateTime (fetchData st (Resolved (Some [])) t_last t_next t_hour)
       = next5am t_next t_hour
   \<and> js_div (reduce_sum (slice (map volatility []) (- 100)))
        (real (length (slice (map volatility []) (- 100)))) = NaN"
  by (simp add: calculateMetrics_def fetchData_def Let_def js_div_def reduce_sum_def slice_def)

section \<open>The next refresh\<close>

text \<open>
  Claim C5. When both readings of the clock give the instant \<open>t\<close>, the computed
  \<open>nextUpdate\<close> is 05:00 of the following calendar day if \<open>t\<close> is at or after 05:00 of
  its own day, and 05:00 of the same day otherwise; it lies after \<open>t\<close>, no 05:00 lies
  between \<open>t\<close> and it, and it is what \<open>fetchData\<close> stores as \<open>nextUpdateTime\<close>. At 06:00
  it is 05:00 of the next day, at 04:00 it is 05:00 of the same day (the witness).
\<close>

theorem nextUpdate_next_0500:
  "next5am t t = (if at0500 (day_of t) \<le> t then at0500 (day_of t + 1) else at0500 (day_of t))
   \<and> t < next5am t t
   \<and> (\<forall>k. t < at0500 k \<longrightarrow> next5am t t \<le> at0500 k)
   \<and> nextUpdateTime (fetchData st (Resolved (Some sd)) t t t) = next5am t t"
proof -
  have a: "next5am t t = (if at0500 (day_of t) \<le> t then at0500 (day_of t + 1) else at0500 (day_of t))"
    by (rule next5am_same_instant)
  have b: "t < next5am t t"
    using at0500_day [of t] by (simp add: a)
  have c: "next5am t t \<le> at0500 k" if "t < at0500 k" for k
  proof (cases "at0500 (day_of t) \<le> t")
    case True
    with that have "at0500 (day_of t) < at0500 k" by simp
    then have "day_of t < k" using at0500_mono [of k "day_of t"] by simp
    then show ?thesis using True by (simp add: a at0500_mono)
  next
    case False
    have "at0500 (day_of t - 1) < at0500 k" using at0500_day [of t] that by simp
    then have "day_of t - 1 < k" using at0500_mono [of k "day_of t - 1"] by simp
    then show ?thesis using False by (simp add: a at0500_mono)
  qed
  have d: "nextUpdateTime (fetchData st (Resolved (Some sd)) t t t) = next5am t t"
    using fetchData_resolved_array [of sd st t t t] by auto
  show ?thesis using a b c d by blast
qed

theorem nextUpdate_next_0500_witness:
  "next5am (6 * msPerHour) (6 * msPerHour) = msPerDay + 5 * msPerHour
   \<and> next5am (4 * msPerHour) (4 * msPerHour) = 5 * msPerHour
   \<and> 6 * msPerHour < at0500 2 \<and> next5am (6 * msPerHour) (6 * msPerHour) \<le> at0500 2
   \<and> nextUpdateTime (fetchData dashboard3 (Resolved (Some series3))
        (6 * msPerHour) (6 * msPerHour) (6 * msPerHour)) = at0500 1"
  using nextUpdate_next_0500 [of "6 * msPerHour" dashboard3 series3]
    nextUpdate_next_0500 [of "4 * msPerHour" dashboard3 series3]
  by (simp add: at0500_def day_of_def msPerDay_def msPerHour_def)

section \<open>A fetch that fails\<close>

text \<open>
  Claim C2 says that after a failed fetch the series is as before, \<open>lastUpdate\<close> is the
  current time and \<open>nextUpdate\<close> is the next 05:00. With three observations stored and
  the request rejected at instant 1000, \<open>lastUpdateTime\<close> keeps its old value 0.
\<close>

theorem failed_fetch_not_recorded:
  "\<not> (data (fetchData dashboard3 Rejected 1000 1000 1000) = data dashboard3
      \<and> lastUpdateTime (fetchData dashboard3 Rejected 1000 1000 1000) = 1000
      \<and> nextUpdateTime (fetchData dashboard3 Rejected 1000 1000 1000) = next5am 1000 1000)"
  by (simp add: fetchData_def dashboard3_def initial_Dashboard_def)

text \<open>
  Claim C2, amended. When the request or the parsing of its body throws (a network or
  transport error), the stored series is left exactly as it was, and so are the snapshot,
  \<open>lastUpdateTime\<close>, \<open>nextUpdateTime\<close> and the pending timeout: the failed attempt neither
  sets \<open>lastUpdate\<close> nor advances \<open>nextUpdate\<close>.
\<close>

theorem rejected_fetch_changes_nothing:
  "data (fetchData st Rejected t_last t_next t_hour) = data st
   \<and> metrics (fetchData st Rejected t_last t_next t_hour) = metrics st
   \<and> lastUpdateTime (fetchData st Rejected t_last t_next t_hour) = lastUpdateTime st
   \<and> nextUpdateTime (fetchData st Rejected t_last t_next t_hour) = nextUpdateTime st
   \<and> timer (fetchData st Rejected t_last t_next t_hour) = timer st"
  by (simp add: fetchData_def)

text \<open>
  The handler's error body parses, so it is not a rejection: its missing \<open>data\<close> field is
  stored, and the \<open>TypeError\<close> of the aggregator ends \<open>fetchData\<close> before the times are set.
\<close>

lemma error_body_overwrites_series:
  "fetchData st (Resolved None) t_last t_next t_hour
     = st\<lparr>fetch_calls := fetch_calls st + 1, data := None\<rparr>"
  by (simp add: fetchData_def calculateMetrics_def)

section \<open>The refresh scheduler\<close>

text \<open>
  Claim C3 says that one fetch is made at once when the dashboard starts and then one
  fetch at 05:00 of every day, a new wait being armed after each fetch. The effect makes
  the first fetch and arms one timeout for the next 05:00. When that timeout fires the
  second fetch is made and no timeout is pending any more: \<open>fetchData\<close> arms none, so
  nothing fires again and the number of fetches stays at two, while a second fetch that
  succeeds sets \<open>nextUpdateTime\<close>, shown as the next update, to the following 05:00.
\<close>

theorem single_timeout_not_rearmed:
  "fetch_calls (useEffect_mount st r a b c now t5) = fetch_calls st + 1
   \<and> timer (useEffect_mount st r a b c now t5) = Some (next5am t5 now - now)
   \<and> fetch_calls (timer_fires (useEffect_mount st r a b c now t5) r' a' b' c')
       = fetch_calls st + 2
   \<and> timer (timer_fires (useEffect_mount st r a b c now t5) r' a' b' c') = None
   \<and> timer_fires (timer_fires (useEffect_mount st r a b c now t5) r' a' b' c') r'' a'' b'' c''
       = timer_fires (useEffect_mount st r a b c now t5) r' a' b' c'
   \<and> nextUpdateTime (timer_fires (useEffect_mount st r a b c now t5) (Resolved (Some sd)) a' b' c')
       = next5am b' c'"
proof -
  let ?st1 = "useEffect_mount st r a b c now t5"
  let ?st2 = "timer_fires ?st1 r' a' b' c'"
  have c1: "fetch_calls ?st1 = fetch_calls st + 1"
    by (simp add: useEffect_mount_def Let_def fetchData_fetch_calls)
  have t1: "timer ?st1 = Some (next5am t5 now - now)"
    by (simp add: useEffect_mount_def Let_def)
  have st2: "?st2 = fetchData (?st1\<lparr>timer := None\<rparr>) r' a' b' c'"
    by (simp add: timer_fires_def t1)
  have c2: "fetch_calls ?st2 = fetch_calls st + 2"
    by (simp add: st2 fetchData_fetch_calls c1)
  have t2: "timer ?st2 = None"
    by (simp add: st2 fetchData_timer)
  have idle: "timer_fires ?st2 r'' a'' b'' c'' = ?st2"
    by (simp add: timer_fires_def [of ?st2] t2)
  have "nextUpdateTime (fetchData (?st1\<lparr>timer := None\<rparr>) (Resolved (Some sd)) a' b' c')
      = next5am b' c'"
    using fetchData_resolved_array [of sd "?st1\<lparr>timer := None\<rparr>" a' b' c'] by auto
  then have shown: "nextUpdateTime (timer_fires ?st1 (Resolved (Some sd)) a' b' c') = next5am b' c'"
    by (simp add: timer_fires_def t1)
  from c1 t1 c2 t2 idle shown show ?thesis by simp
qed

section \<open>Who computes the volatility\<close>

text \<open>
  Claim C4 says that the fetcher outputs date, high and low only and that the core
  computes \<open>volatility = high - low\<close> before it stores an element. The handler's row
  carries the volatility 10 of its high 100 and low 90, and the core stores an element
  whose volatility is not \<open>high - low\<close> as it is.
\<close>

theorem core_computes_volatility_cex:
  "handler (Some upstream1)
     = Status200 [\<lparr>row_date = 1700000000000, row_volatility = Finite 10,
                   row_high = Some 100, row_low = Some 90\<rparr>]
   \<and> data (fetchData dashboard3 (Resolved (Some [mismatched_row])) 0 0 0)
       = Some [mismatched_row]
   \<and> volatility mismatched_row \<noteq> high mismatched_row - low mismatched_row"
proof -
  have "handler (Some upstream1)
     = Status200 [\<lparr>row_date = 1700000000000, row_volatility = Finite 10,
                   row_high = Some 100, row_low = Some 90\<rparr>]"
    by (simp add: handler_def upstream1_def js_index_def js_minus_def)
  moreover have "volatility mismatched_row \<noteq> high mismatched_row - low mismatched_row"
    by (simp add: mismatched_row_def)
  ultimately show ?thesis
    by (simp only: fetchData_data) simp
qed

text \<open>
  Claim C4, amended. The fetcher computes the volatility: it outputs one row for each
  timestamp, with the high and the low read at the row's index and the volatility
  \<open>high - low\<close> of the same row (the difference of the two numbers where both arrays
  reach the index). The core stores the \<open>data\<close> it receives unchanged and computes no
  volatility.
\<close>

theorem fetcher_computes_volatility:
  "\<exists>rows. handler (Some resp) = Status200 rows
      \<and> length rows = length (timestamp resp)
      \<and> (\<forall>i < length rows.
            row_volatility (rows ! i) = js_minus (row_high (rows ! i)) (row_low (rows ! i))
            \<and> row_high (rows ! i) = js_index (quote_high resp) i
            \<and> row_low (rows ! i) = js_index (quote_low resp) i
            \<and> (i < length (quote_high resp) \<and> i < length (quote_low resp) \<longrightarrow>
                 row_volatility (rows ! i)
                   = Finite (quote_high resp ! i - quote_low resp ! i)))
      \<and> data (fetchData st (Resolved d) t_last t_next t_hour) = d"
  by (simp add: handler_rows js_minus_def js_index_def fetchData_data)

theorem fetcher_computes_volatility_witness:
  "(\<exists>rows. handler (Some upstream1) = Status200 rows
      \<and> length rows = 1 \<and> (0::nat) < length rows
      \<and> row_volatility (rows ! 0) = Finite (100 - 90))
   \<and> data (fetchData dashboard3 (Resolved (Some [mismatched_row])) 0 0 0) = Some [mismatched_row]"
  using fetcher_computes_volatility [of upstream1 dashboard3 "Some [mismatched_row]" 0 0 0]
  by (auto simp: upstream1_def)

end
